theory Spec2Isabelle
  imports Main "HOL-Library.Sublist"
begin

section \<open>Values held in memory and on disk\<close>

text \<open>
  The service (\<^verbatim>\<open>src/main.py\<close>) keeps a chat transcript as a Python list of dicts and
  stores it as a JSON document. The values that \<^verbatim>\<open>json.load\<close> can produce are the
  values the handler works on, so one datatype serves for both. A dict is an association
  list in insertion order; a key is looked up with \<open>map_of\<close>. Numbers are integers
  (the service never computes with them). A \<open>string\<close> stands for a Python \<^verbatim>\<open>str\<close>, one
  \<open>char\<close> for each code point, so that \<open>length\<close> is Python's \<^verbatim>\<open>len\<close>.
\<close>

datatype json =
    JNull
  | JBool bool
  | JNum int
  | JStr string
  | JArr "json list"
  | JObj "(string \<times> json) list"

text \<open>
  \<^verbatim>\<open>len(v)\<close>: defined on \<^verbatim>\<open>str\<close>, \<^verbatim>\<open>list\<close> and \<^verbatim>\<open>dict\<close>, a \<^verbatim>\<open>TypeError\<close> on
  \<^verbatim>\<open>None\<close>, booleans and numbers. Wherever a function of this theory returns an
  \<open>option\<close>, \<open>None\<close> stands for a raised Python exception; each place that can catch
  it catches \<^verbatim>\<open>Exception\<close>, so the exception's class is not recorded.
\<close>

fun py_len :: "json \<Rightarrow> nat option" where
  "py_len (JStr s) = Some (length s)"
| "py_len (JArr xs) = Some (length xs)"
| "py_len (JObj kvs) = Some (length kvs)"
| "py_len _ = None"

text \<open>\<^verbatim>\<open>len(msg.get("content", ""))\<close>: \<^verbatim>\<open>.get\<close> exists on a dict only.\<close>

fun get_content_len :: "json \<Rightarrow> nat option" where
  "get_content_len (JObj kvs) =
     (case map_of kvs ''content'' of None \<Rightarrow> Some 0 | Some v \<Rightarrow> py_len v)"
| "get_content_len _ = None"

text \<open>\<^verbatim>\<open>len(m['content'])\<close>: a missing key raises \<^verbatim>\<open>KeyError\<close>.\<close>

fun index_content_len :: "json \<Rightarrow> nat option" where
  "index_content_len (JObj kvs) =
     (case map_of kvs ''content'' of None \<Rightarrow> None | Some v \<Rightarrow> py_len v)"
| "index_content_len _ = None"

text \<open>
  \<^verbatim>\<open>sum(f(m) for m in ms)\<close>, evaluated from the left; the first element on which
  \<open>f\<close> raises ends the evaluation.
\<close>

fun sum_over :: "(json \<Rightarrow> nat option) \<Rightarrow> json list \<Rightarrow> nat option" where
  "sum_over f [] = Some 0"
| "sum_over f (m # ms) =
     (case f m of
        None \<Rightarrow> None
      | Some n \<Rightarrow> (case sum_over f ms of None \<Rightarrow> None | Some k \<Rightarrow> Some (n + k)))"

definition message :: "string \<Rightarrow> string \<Rightarrow> json" where
  "message r c = JObj [(''role'', JStr r), (''content'', JStr c)]"

text \<open>
  A message of the data model: a dict whose \<^verbatim>\<open>role\<close> and \<^verbatim>\<open>content\<close> are text
  (\<^verbatim>\<open>List[Dict[str, str]]\<close> in the signatures of the source).
\<close>

fun is_message :: "json \<Rightarrow> bool" where
  "is_message (JObj kvs) =
     (case (map_of kvs ''role'', map_of kvs ''content'') of
        (Some (JStr r), Some (JStr c)) \<Rightarrow> True
      | _ \<Rightarrow> False)"
| "is_message _ = False"

section \<open>Context Budgeter: \<^verbatim>\<open>_limit_context_by_chars\<close>\<close>

definition MAX_CONTEXT_CHARS :: int where
  "MAX_CONTEXT_CHARS = 300000"

text \<open>
  The \<^verbatim>\<open>while\<close> loop of lines 207-212. The argument list is
  \<^verbatim>\<open>working_messages[1:]\<close>: \<^verbatim>\<open>pop(1)\<close> removes its head, and
  \<^verbatim>\<open>len(working_messages) > 1\<close> says that it is not empty. The result is what is left
  of it when the loop ends.
\<close>

fun trim_loop :: "int \<Rightarrow> int \<Rightarrow> json list \<Rightarrow> json list option" where
  "trim_loop current_chars max_chars [] = Some []"
| "trim_loop current_chars max_chars (removed_message # rest) =
     (if current_chars > max_chars then
        (case get_content_len removed_message of
           None \<Rightarrow> None
         | Some removed_len \<Rightarrow> trim_loop (current_chars - int removed_len) max_chars rest)
      else Some (removed_message # rest))"

text \<open>
  \<^verbatim>\<open>_limit_context_by_chars\<close> (lines 167-226), named here without its leading
  underscore. The parameter \<^verbatim>\<open>model_name\<close> of the source is never read and is left
  out. \<^verbatim>\<open>working_messages\<close> is a new list, so the caller's history is not changed.
\<close>

definition limit_context_by_chars :: "string \<Rightarrow> json list \<Rightarrow> int \<Rightarrow> json list option" where
  "limit_context_by_chars system_prompt history max_chars =
     (let system_message = message ''system'' system_prompt in
      case sum_over get_content_len history of
        None \<Rightarrow> None
      | Some history_chars \<Rightarrow>
          (let current_chars = int (length system_prompt) + int history_chars in
           if current_chars \<le> max_chars then Some (system_message # history)
           else (case trim_loop current_chars max_chars history of
                   None \<Rightarrow> None
                 | Some kept \<Rightarrow> Some (system_message # kept))))"

text \<open>The character count of a message list: the sum of the lengths of its contents.\<close>

definition chars_of :: "json list \<Rightarrow> nat" where
  "chars_of ms = sum_list (map (\<lambda>m. case get_content_len m of None \<Rightarrow> 0 | Some n \<Rightarrow> n) ms)"

section \<open>Transcript Store: \<^verbatim>\<open>save_chat_history\<close>, \<^verbatim>\<open>load_chat_history\<close>\<close>

text \<open>
  A path as \<^verbatim>\<open>pathlib\<close> keeps it (POSIX flavour): where it is anchored, and its
  components. Parsing a string splits it at the slashes and drops the empty components
  and the components \<^verbatim>\<open>.\<close>; one leading slash, or three and more, anchor the path at
  the root, exactly two at \<^verbatim>\<open>//\<close>. The components \<^verbatim>\<open>..\<close> are kept: what they and
  symbolic links resolve to is the file system's business and below this model.
\<close>

datatype anchor = Relative | Root | DoubleRoot

type_synonym path = "anchor \<times> string list"

text \<open>\<^verbatim>\<open>s.split('/')\<close>.\<close>

fun split_slash :: "string \<Rightarrow> string list" where
  "split_slash [] = [[]]"
| "split_slash (c # cs) =
     (if c = CHR ''/'' then [] # split_slash cs
      else (case split_slash cs of [] \<Rightarrow> [[c]] | p # ps \<Rightarrow> (c # p) # ps))"

definition parse_path :: "string \<Rightarrow> path" where
  "parse_path s =
     (let n = length (takeWhile (\<lambda>c. c = CHR ''/'') s)
      in (if n = 0 then Relative else if n = 2 then DoubleRoot else Root,
          filter (\<lambda>p. p \<noteq> [] \<and> p \<noteq> ''.'') (split_slash s)))"

text \<open>
  The operator \<^verbatim>\<open>/\<close> of a path and a string: an anchored right-hand side replaces
  the left-hand side, a relative one is appended to it.
\<close>

definition join_path :: "path \<Rightarrow> string \<Rightarrow> path" where
  "join_path p s =
     (case parse_path s of
        (Relative, parts) \<Rightarrow> (fst p, snd p @ parts)
      | (Root, parts) \<Rightarrow> (Root, parts)
      | (DoubleRoot, parts) \<Rightarrow> (DoubleRoot, parts))"

definition CHAT_DIR :: path where
  "CHAT_DIR = (Relative, [''chat_history''])"

text \<open>\<^verbatim>\<open>CHAT_DIR / f"{session_id}.json"\<close> (lines 109 and 122).\<close>

definition file_path :: "string \<Rightarrow> path" where
  "file_path session_id = join_path CHAT_DIR (session_id @ ''.json'')"

text \<open>
  The file system is a map from paths to what is found there. Parsing and printing
  JSON text is the work of Python's \<^verbatim>\<open>json\<close> module and is not modelled: a file either
  holds a JSON document (\<^verbatim>\<open>json.load\<close> returns it, and a \<^verbatim>\<open>json.dump\<close> that
  completes leaves it), or holds text that \<^verbatim>\<open>json.load\<close> rejects (\<open>Garbled\<close>; an
  empty or truncated file is such), or exists and cannot be opened for reading
  (\<open>Unreadable\<close>). At \<open>StatRaises\<close> the path cannot even be examined:
  \<^verbatim>\<open>Path.exists()\<close> raises \<^verbatim>\<open>OSError\<close> there (a name longer than the file system
  allows, a directory that may not be searched) instead of answering.
\<close>

datatype stored_file = StatRaises | Unreadable | Garbled | Json json

type_synonym disk = "path \<Rightarrow> stored_file option"

text \<open>
  The exceptions that matter to the handlers of the store: \<open>IOError\<close> is Python's
  \<^verbatim>\<open>OSError\<close>, of which \<^verbatim>\<open>IOError\<close> is another name; \<open>OtherException\<close> is any other
  \<^verbatim>\<open>Exception\<close>.
\<close>

datatype raised = IOError | OtherException

text \<open>
  What the file system does with one write is an input of the model: the write goes
  through; or \<^verbatim>\<open>open(file_path, "w")\<close> raises and the file is untouched; or the file is
  opened (and so truncated) and \<^verbatim>\<open>json.dump\<close> raises before the document is complete
  (the device is full, or a string of the transcript holds a lone surrogate, which
  UTF-8 cannot encode).
\<close>

datatype write_outcome = Written | OpenFails | DumpFails raised

text \<open>The body of the \<^verbatim>\<open>try\<close> of \<^verbatim>\<open>save_chat_history\<close> (lines 111-113).\<close>

definition write_document :: "write_outcome \<Rightarrow> disk \<Rightarrow> path \<Rightarrow> json \<Rightarrow> disk \<times> raised option" where
  "write_document w d path doc =
     (case w of
        Written \<Rightarrow> (d(path \<mapsto> Json doc), None)
      | OpenFails \<Rightarrow> (d, Some IOError)
      | DumpFails e \<Rightarrow> (d(path \<mapsto> Garbled), Some e))"

text \<open>
  The second component is the exception that leaves the function. Both handlers
  (lines 114-118) log and fall through.
\<close>

definition save_chat_history ::
  "write_outcome \<Rightarrow> disk \<Rightarrow> string \<Rightarrow> json list \<Rightarrow> disk \<times> raised option" where
  "save_chat_history w d session_id msgs =
     (case write_document w d (file_path session_id) (JArr msgs) of
        (d', None) \<Rightarrow> (d', None)
      | (d', Some IOError) \<Rightarrow> (d', None)
      | (d', Some OtherException) \<Rightarrow> (d', None))"

text \<open>\<^verbatim>\<open>isinstance(msg, dict) and 'role' in msg and 'content' in msg\<close> (line 131).\<close>

fun has_role_and_content :: "json \<Rightarrow> bool" where
  "has_role_and_content (JObj kvs) =
     (map_of kvs ''role'' \<noteq> None \<and> map_of kvs ''content'' \<noteq> None)"
| "has_role_and_content _ = False"

text \<open>
  \<^verbatim>\<open>load_chat_history\<close> (lines 120-146). The test \<^verbatim>\<open>file_path.exists()\<close> of line 123
  stands before the \<^verbatim>\<open>try\<close> of line 126, so what it raises leaves the function
  (\<open>Inl\<close>); everything raised inside the \<^verbatim>\<open>try\<close> is caught and answered with the empty
  list.
\<close>

definition load_chat_history :: "disk \<Rightarrow> string \<Rightarrow> raised + json list" where
  "load_chat_history d session_id =
     (case d (file_path session_id) of
        None \<Rightarrow> Inr []
      | Some StatRaises \<Rightarrow> Inl IOError
      | Some Unreadable \<Rightarrow> Inr []
      | Some Garbled \<Rightarrow> Inr []
      | Some (Json history) \<Rightarrow>
          (case history of
             JArr msgs \<Rightarrow> if list_all has_role_and_content msgs then Inr msgs else Inr []
           | _ \<Rightarrow> Inr []))"

section \<open>\<^verbatim>\<open>create_session\<close>\<close>

datatype http_response = Created string | InternalServerError string

text \<open>
  \<open>session_id\<close> is the value of \<^verbatim>\<open>str(uuid.uuid4())\<close>. \<open>Created\<close> is status 201 with
  the body \<^verbatim>\<open>{"session_id": session_id}\<close>, \<open>InternalServerError\<close> the
  \<^verbatim>\<open>HTTPException\<close> of status 500 with its detail.
\<close>

definition create_session :: "string \<Rightarrow> write_outcome \<Rightarrow> disk \<Rightarrow> disk \<times> http_response" where
  "create_session session_id w d =
     (case save_chat_history w d session_id [] of
        (d', None) \<Rightarrow> (d', Created session_id)
      | (d', Some e) \<Rightarrow> (d', InternalServerError ''Could not create chat session.''))"

section \<open>The WebSocket handler: \<^verbatim>\<open>websocket_endpoint\<close>\<close>

subsection \<open>What the handler sends and receives\<close>

text \<open>
  The detail of an error envelope, one constructor for each text in the source:
  \<open>InvalidJson\<close> "Invalid JSON format." (line 358),
  \<open>InvalidStructure\<close> "Invalid message structure: ..." (362),
  \<open>ProcessingError\<close> "Server error processing your request." (366),
  \<open>NoConnect\<close> "Could not connect to AI service." (416),
  \<open>Overloaded\<close> "AI service is temporarily overloaded. ..." (419),
  \<open>ServiceStatus code\<close> "AI service error (Status: code). ..." (422),
  \<open>Unexpected\<close> "An unexpected error occurred while communicating with the AI." (426),
  \<open>Critical\<close> "A critical server error occurred. Connection closing." (453).
\<close>

datatype detail =
    InvalidJson | InvalidStructure | ProcessingError
  | NoConnect | Overloaded | ServiceStatus int | Unexpected | Critical

text \<open>
  \<^verbatim>\<open>WebSocketResponse(type="stream", content=c)\<close> and
  \<^verbatim>\<open>WebSocketResponse(type="error", detail=d)\<close>, the two forms the handler builds.
\<close>

datatype envelope = Stream string | Error detail

text \<open>
  An inbound frame: a binary frame (\<^verbatim>\<open>receive_text\<close> raises \<^verbatim>\<open>KeyError\<close>); text
  that \<^verbatim>\<open>json.loads\<close> rejects with \<^verbatim>\<open>JSONDecodeError\<close>; text on which
  \<^verbatim>\<open>json.loads\<close> raises another exception (\<^verbatim>\<open>RecursionError\<close> on deep nesting,
  \<^verbatim>\<open>ValueError\<close> on an integer of too many digits); or text that it parses to the
  given value.
\<close>

datatype frame = Binary | NotJson | LoadsRaises | JsonText json

datatype WebSocketRequest = WebSocketRequest (req_type: string) (req_content: "string option")

text \<open>
  \<^verbatim>\<open>WebSocketRequest.model_validate(data)\<close> (pydantic): \<open>data\<close> is a dict, \<^verbatim>\<open>type\<close> is
  present and a string, \<^verbatim>\<open>content\<close> is absent, null or a string; other keys are
  ignored. \<open>None\<close> is a \<^verbatim>\<open>ValidationError\<close>.
\<close>

fun model_validate :: "json \<Rightarrow> WebSocketRequest option" where
  "model_validate (JObj kvs) =
     (case map_of kvs ''type'' of
        Some (JStr t) \<Rightarrow>
          (case map_of kvs ''content'' of
             None \<Rightarrow> Some (WebSocketRequest t None)
           | Some JNull \<Rightarrow> Some (WebSocketRequest t None)
           | Some (JStr c) \<Rightarrow> Some (WebSocketRequest t (Some c))
           | Some _ \<Rightarrow> None)
      | _ \<Rightarrow> None)"
| "model_validate _ = None"

text \<open>
  The exceptions of the OpenAI client that the handler tells apart (lines 414-423), in
  the order of its \<^verbatim>\<open>except\<close> clauses.
\<close>

datatype api_error = APIConnectionError | RateLimitError | APIStatusError int | OtherError

text \<open>
  What happens while one response is streamed, in the order it happens: the gateway
  yields a chunk, whose \<^verbatim>\<open>choices[0].delta.content\<close> is a string or is missing
  (\<open>Chunk None\<close>: no choices, no delta, or content \<^verbatim>\<open>None\<close>); or the client's connection
  goes down.
\<close>

datatype stream_event = Chunk "string option" | LinkDrop

text \<open>
  The surroundings of one turn: the clock (\<open>now\<close> is the formatted
  \<^verbatim>\<open>current_time\<close> of line 376), the events of the stream, how the stream ends
  (normally, or with an exception, which for an empty event list may come from
  \<^verbatim>\<open>create\<close> itself), and what the file system does with the turn's write.
\<close>

record world =
  now :: string
  events :: "stream_event list"
  ending :: "api_error option"
  disk_write :: write_outcome

datatype event = Frame frame world | Disconnect

subsection \<open>State\<close>

datatype ws_state = CONNECTING | CONNECTED | DISCONNECTED

text \<open>
  Where the handler stands between two inbound events: blocked in \<^verbatim>\<open>receive_text\<close>
  (line 348); blocked in \<^verbatim>\<open>websocket.iter_json()\<close> (line 435), having collected the
  given values so far; or returned.
\<close>

datatype position = Receiving | Draining "json list" | Returned

text \<open>
  The module's globals (\<open>files\<close> for the file system, \<open>active_connections\<close>, of which
  only the keys are ever consulted), the socket (\<open>client_state\<close> as Starlette keeps it,
  \<open>send_calls\<close> the envelopes the handler has given to \<^verbatim>\<open>websocket.send_json\<close>,
  \<open>close_code\<close> the code of the handler's \<^verbatim>\<open>close\<close> call), the network (\<open>link_up\<close>
  whether the client can still be reached, \<open>delivered\<close> the envelopes that reached it),
  the handler's local \<open>messages\<close>, the message lists given to
  \<^verbatim>\<open>client.chat.completions.create\<close> so far, and the handler's position.
\<close>

record state =
  files :: disk
  active_connections :: "string set"
  client_state :: ws_state
  send_calls :: "envelope list"
  link_up :: bool
  delivered :: "envelope list"
  close_code :: "nat option"
  messages :: "json list"
  api_calls :: "json list list"
  position :: position

subsection \<open>Operations\<close>

text \<open>
  \<^verbatim>\<open>send_ws_message\<close> (lines 149-163) calls \<^verbatim>\<open>send_json\<close> only when
  \<^verbatim>\<open>client_state\<close> is \<^verbatim>\<open>CONNECTED\<close>, and catches every exception of the call. The
  call delivers the envelope when the link is up; on a link that is down it raises or
  is lost, and nothing reaches the client.
\<close>

definition send_ws_message :: "envelope \<Rightarrow> state \<Rightarrow> state" where
  "send_ws_message msg s =
     (if client_state s = CONNECTED then
        (if link_up s
         then s\<lparr>send_calls := send_calls s @ [msg], delivered := delivered s @ [msg]\<rparr>
         else s\<lparr>send_calls := send_calls s @ [msg]\<rparr>)
      else s)"

text \<open>The \<^verbatim>\<open>finally\<close> block (lines 454-471).\<close>

definition cleanup :: "string \<Rightarrow> state \<Rightarrow> state" where
  "cleanup session_id s =
     (let s1 = s\<lparr>active_connections := active_connections s - {session_id}\<rparr>;
          s2 = (if client_state s1 \<noteq> DISCONNECTED then s1\<lparr>close_code := Some 1011\<rparr> else s1)
      in s2\<lparr>position := Returned\<rparr>)"

text \<open>
  The top of the \<^verbatim>\<open>while\<close> loop. \<^verbatim>\<open>receive_text\<close> on a socket that has seen its
  disconnect raises \<^verbatim>\<open>RuntimeError\<close> at once: \<^verbatim>\<open>except Exception\<close> (line 364) sends an
  error and breaks. Otherwise the handler waits.
\<close>

definition await_receive :: "string \<Rightarrow> state \<Rightarrow> state" where
  "await_receive session_id s =
     (if client_state s = CONNECTED then s\<lparr>position := Receiving\<rparr>
      else cleanup session_id (send_ws_message (Error ProcessingError) s))"

text \<open>The loop over the chunks (lines 402-408).\<close>

fun relay :: "stream_event list \<Rightarrow> string \<Rightarrow> state \<Rightarrow> string \<times> state" where
  "relay [] assistant_response_content s = (assistant_response_content, s)"
| "relay (Chunk None # es) assistant_response_content s =
     relay es assistant_response_content s"
| "relay (Chunk (Some chunk_content) # es) assistant_response_content s =
     relay es (assistant_response_content @ chunk_content)
       (send_ws_message (Stream chunk_content) s)"
| "relay (LinkDrop # es) assistant_response_content s =
     relay es assistant_response_content (s\<lparr>link_up := False\<rparr>)"

definition error_detail :: "api_error \<Rightarrow> detail" where
  "error_detail e =
     (case e of
        APIConnectionError \<Rightarrow> NoConnect
      | RateLimitError \<Rightarrow> Overloaded
      | APIStatusError code \<Rightarrow> ServiceStatus code
      | OtherError \<Rightarrow> Unexpected)"

text \<open>
  The \<^verbatim>\<open>try\<close> of lines 393-428. The log line 394 computes
  \<^verbatim>\<open>sum(len(m['content']) for m in api_messages_to_send)\<close> inside the \<^verbatim>\<open>try\<close>; if that
  raises, the gateway is not called. The list given to \<^verbatim>\<open>create\<close> (line 397) is
  \<^verbatim>\<open>api_messages\<close>. The result is \<^verbatim>\<open>assistant_response_content\<close> and the state.
\<close>

definition call_gateway :: "json list \<Rightarrow> json list \<Rightarrow> world \<Rightarrow> state \<Rightarrow> string \<times> state" where
  "call_gateway api_messages_to_send api_messages w s =
     (case sum_over index_content_len api_messages_to_send of
        None \<Rightarrow> ([], send_ws_message (Error Unexpected) s)
      | Some n \<Rightarrow>
          (case relay (events w) [] (s\<lparr>api_calls := api_calls s @ [api_messages]\<rparr>) of
             (assistant_response_content, s') \<Rightarrow>
               (case ending w of
                  None \<Rightarrow> (assistant_response_content, send_ws_message (Stream ''[DONE]'') s')
                | Some e \<Rightarrow> (assistant_response_content, send_ws_message (Error (error_detail e)) s'))))"

definition system_prompt_at :: "string \<Rightarrow> string" where
  "system_prompt_at current_time =
     ''You are a helpful assistant. The current date and time is: '' @ current_time @ ''.''"

text \<open>
  Lines 371-438, for a \<^verbatim>\<open>chat_message\<close> with the non-empty content
  \<open>user_message_content\<close>. An exception of \<^verbatim>\<open>_limit_context_by_chars\<close> (line 380) or
  of \<^verbatim>\<open>save_chat_history\<close> (line 434) is outside the inner \<^verbatim>\<open>try\<close>: the handler of
  line 449 sends an error and the \<^verbatim>\<open>finally\<close> block runs. With an empty
  \<^verbatim>\<open>assistant_response_content\<close> the condition of line 435 is evaluated, which starts to
  read from the socket.
\<close>

definition chat_turn :: "string \<Rightarrow> string \<Rightarrow> world \<Rightarrow> state \<Rightarrow> state" where
  "chat_turn session_id user_message_content w s =
     (let s1 = s\<lparr>messages := messages s @ [message ''user'' user_message_content]\<rparr>;
          system_prompt = system_prompt_at (now w)
      in case limit_context_by_chars system_prompt (messages s1) MAX_CONTEXT_CHARS of
           None \<Rightarrow> cleanup session_id (send_ws_message (Error Critical) s1)
         | Some api_messages_to_send \<Rightarrow>
             (let api_messages = message ''system'' system_prompt # messages s1 in
              case call_gateway api_messages_to_send api_messages w s1 of
                (assistant_response_content, s2) \<Rightarrow>
                  if assistant_response_content \<noteq> [] then
                    (let s3 = s2\<lparr>messages :=
                                 messages s2 @ [message ''assistant'' assistant_response_content]\<rparr>
                     in case save_chat_history (disk_write w) (files s3) session_id (messages s3) of
                          (d, None) \<Rightarrow> await_receive session_id (s3\<lparr>files := d\<rparr>)
                        | (d, Some e) \<Rightarrow>
                            cleanup session_id (send_ws_message (Error Critical) (s3\<lparr>files := d\<rparr>)))
                  else s2\<lparr>position := Draining []\<rparr>))"

text \<open>
  \<^verbatim>\<open>any(m['type'] == 'error' for m in ...)\<close> (line 435): from the left, stopping at the
  first hit; \<^verbatim>\<open>m['type']\<close> raises on a value that is not a dict or has no such key.
\<close>

fun any_type_error :: "json list \<Rightarrow> bool option" where
  "any_type_error [] = Some False"
| "any_type_error (JObj kvs # ms) =
     (case map_of kvs ''type'' of
        None \<Rightarrow> None
      | Some t \<Rightarrow> if t = JStr ''error'' then Some True else any_type_error ms)"
| "any_type_error (_ # ms) = None"

text \<open>
  An event while the handler is blocked in \<^verbatim>\<open>receive_text\<close> (lines 347-370 and
  441-443). Of what \<^verbatim>\<open>receive_text\<close> and \<^verbatim>\<open>json.loads\<close> raise, the disconnect
  breaks the loop, \<^verbatim>\<open>JSONDecodeError\<close> and \<^verbatim>\<open>ValidationError\<close> are answered and the
  loop continues, and every other exception is answered and breaks the loop (lines
  364-367).
\<close>

definition on_receive :: "string \<Rightarrow> event \<Rightarrow> state \<Rightarrow> state" where
  "on_receive session_id ev s =
     (case ev of
        Disconnect \<Rightarrow> cleanup session_id (s\<lparr>client_state := DISCONNECTED\<rparr>)
      | Frame Binary w \<Rightarrow> cleanup session_id (send_ws_message (Error ProcessingError) s)
      | Frame LoadsRaises w \<Rightarrow> cleanup session_id (send_ws_message (Error ProcessingError) s)
      | Frame NotJson w \<Rightarrow> await_receive session_id (send_ws_message (Error InvalidJson) s)
      | Frame (JsonText data) w \<Rightarrow>
          (case model_validate data of
             None \<Rightarrow> await_receive session_id (send_ws_message (Error InvalidStructure) s)
           | Some request_data \<Rightarrow>
               (case req_content request_data of
                  None \<Rightarrow> await_receive session_id s
                | Some c \<Rightarrow>
                    if req_type request_data = ''chat_message'' \<and> c \<noteq> []
                    then chat_turn session_id c w s
                    else await_receive session_id s)))"

text \<open>
  An event while the handler is blocked in the comprehension over
  \<^verbatim>\<open>websocket.iter_json()\<close> (line 435). Every frame that parses is collected. A frame
  that does not parse raises out of the comprehension, to the handler of line 449. The
  disconnect ends the iteration; then \<^verbatim>\<open>any\<close> is evaluated, and unless it raises the
  loop goes back to \<^verbatim>\<open>receive_text\<close>.
\<close>

definition on_drain :: "string \<Rightarrow> json list \<Rightarrow> event \<Rightarrow> state \<Rightarrow> state" where
  "on_drain session_id collected ev s =
     (case ev of
        Frame (JsonText data) w \<Rightarrow> s\<lparr>position := Draining (collected @ [data])\<rparr>
      | Frame _ w \<Rightarrow> cleanup session_id (send_ws_message (Error Critical) s)
      | Disconnect \<Rightarrow>
          (let s1 = s\<lparr>client_state := DISCONNECTED\<rparr> in
           case any_type_error collected of
             None \<Rightarrow> cleanup session_id (send_ws_message (Error Critical) s1)
           | Some b \<Rightarrow> await_receive session_id s1))"

definition step :: "string \<Rightarrow> event \<Rightarrow> state \<Rightarrow> state" where
  "step session_id ev s =
     (case position s of
        Receiving \<Rightarrow> on_receive session_id ev s
      | Draining collected \<Rightarrow> on_drain session_id collected ev s
      | Returned \<Rightarrow> s)"

fun run :: "string \<Rightarrow> event list \<Rightarrow> state \<Rightarrow> state" where
  "run session_id [] s = s"
| "run session_id (ev # evs) s = run session_id evs (step session_id ev s)"

text \<open>
  Lines 327-340: the handler up to its first \<^verbatim>\<open>receive_text\<close>. \<open>well_formed\<close> says that
  \<^verbatim>\<open>uuid.UUID(session_id)\<close> does not raise. The call of \<^verbatim>\<open>load_chat_history\<close>
  (line 340) stands before the \<^verbatim>\<open>try\<close> of line 344: when it raises, the exception
  leaves the handler, no \<^verbatim>\<open>except\<close> clause and no \<^verbatim>\<open>finally\<close> block runs, and the
  session id stays in \<^verbatim>\<open>active_connections\<close>.
\<close>

definition websocket_endpoint :: "bool \<Rightarrow> string \<Rightarrow> state \<Rightarrow> state" where
  "websocket_endpoint well_formed session_id s =
     (if \<not> well_formed then s\<lparr>close_code := Some 1008, position := Returned\<rparr>
      else (let s1 = s\<lparr>client_state := CONNECTED,
                       active_connections := insert session_id (active_connections s)\<rparr>
            in case load_chat_history (files s1) session_id of
                 Inl e \<Rightarrow> s1\<lparr>position := Returned\<rparr>
               | Inr loaded \<Rightarrow> await_receive session_id (s1\<lparr>messages := loaded\<rparr>)))"

text \<open>
  What \<^verbatim>\<open>load_chat_history\<close> gives for the session in a state: its persisted
  transcript, or the exception.
\<close>

definition persisted :: "string \<Rightarrow> state \<Rightarrow> raised + json list" where
  "persisted session_id s = load_chat_history (files s) session_id"

text \<open>
  Handlers of other connections run between two events of this one and share the
  module's globals with it: the handler whose locals are in \<open>s\<close> goes on with the
  globals as the handler of \<open>other\<close> left them.
\<close>

definition globals_from :: "state \<Rightarrow> state \<Rightarrow> state" where
  "globals_from other s =
     s\<lparr>files := files other, active_connections := active_connections other\<rparr>"

text \<open>
  Whether a turn on the history \<open>history\<close> gets as far as the gateway: neither the
  budgeter (line 380) nor the log line 394 raises.
\<close>

definition reaches_gateway :: "string \<Rightarrow> json list \<Rightarrow> bool" where
  "reaches_gateway system_prompt history =
     (case limit_context_by_chars system_prompt history MAX_CONTEXT_CHARS of
        None \<Rightarrow> False
      | Some api_messages_to_send \<Rightarrow>
          sum_over index_content_len api_messages_to_send \<noteq> None)"

text \<open>The envelope that ends a turn's stream (lines 411-426).\<close>

definition closing_envelope :: "world \<Rightarrow> envelope" where
  "closing_envelope w =
     (case ending w of None \<Rightarrow> Stream ''[DONE]'' | Some e \<Rightarrow> Error (error_detail e))"

text \<open>The contents of the chunks of a stream, in order.\<close>

fun fragments :: "stream_event list \<Rightarrow> string list" where
  "fragments [] = []"
| "fragments (Chunk (Some c) # es) = c # fragments es"
| "fragments (_ # es) = fragments es"


text \<open>
  The client's envelope \<^verbatim>\<open>{"type": "chat_message", "content": c}\<close>, and the state in
  which a connection finds the server whose directory is \<open>d\<close>: nothing registered, a
  socket not yet accepted.
\<close>

definition chat_message :: "string \<Rightarrow> frame" where
  "chat_message c = JsonText (JObj [(''type'', JStr ''chat_message''), (''content'', JStr c)])"

definition before_connect :: "disk \<Rightarrow> state" where
  "before_connect d =
     \<lparr>files = d, active_connections = {}, client_state = CONNECTING, send_calls = [],
      link_up = True, delivered = [], close_code = None, messages = [], api_calls = [],
      position = Returned\<rparr>"

text \<open>
  A connection just opened on a session whose stored record is the transcript \<open>T\<close>.
\<close>

definition connected :: "string \<Rightarrow> json list \<Rightarrow> state" where
  "connected session_id T =
     websocket_endpoint True session_id (before_connect [file_path session_id \<mapsto> Json (JArr T)])"



section \<open>Properties of the Context Budgeter\<close>

lemma is_message_len:
  "is_message m \<Longrightarrow> \<exists>n. get_content_len m = Some n"
  by (cases m) (auto split: option.splits json.splits)

lemma sum_over_messages:
  "list_all is_message ms \<Longrightarrow> sum_over get_content_len ms = Some (chars_of ms)"
proof (induction ms)
  case Nil
  show ?case by (simp add: chars_of_def)
next
  case (Cons m ms)
  from Cons.prems obtain n where "get_content_len m = Some n"
    using is_message_len by auto
  with Cons show ?case by (simp add: chars_of_def)
qed

text \<open>
  The loop invariant: \<open>current_chars\<close> is the length of the system prompt (\<open>base\<close>) plus
  the characters of the conversational messages still in the list.
\<close>

lemma trim_loop_result:
  "list_all is_message ms \<Longrightarrow> cur = base + int (chars_of ms) \<Longrightarrow>
   \<exists>kept. trim_loop cur mx ms = Some kept \<and> suffix kept ms \<and>
          (base \<le> mx \<longrightarrow> base + int (chars_of kept) \<le> mx)"
proof (induction ms arbitrary: cur)
  case Nil
  show ?case by (simp add: chars_of_def)
next
  case (Cons m ms)
  from Cons.prems(1) obtain n where n: "get_content_len m = Some n"
    using is_message_len by auto
  have split: "chars_of (m # ms) = n + chars_of ms"
    using n by (simp add: chars_of_def)
  show ?case
  proof (cases "cur > mx")
    case False
    with Cons.prems(2) show ?thesis by simp
  next
    case True
    have "list_all is_message ms" using Cons.prems(1) by simp
    moreover have "cur - int n = base + int (chars_of ms)"
      using Cons.prems(2) split by simp
    ultimately obtain kept where
      k: "trim_loop (cur - int n) mx ms = Some kept" "suffix kept ms"
         "base \<le> mx \<longrightarrow> base + int (chars_of kept) \<le> mx"
      using Cons.IH by blast
    from k(2) have "suffix kept (m # ms)" by (rule suffix_ConsI)
    with True n k(1) k(3) show ?thesis by simp
  qed
qed

lemma limit_context_shape:
  assumes "list_all is_message H"
  shows "\<exists>kept. limit_context_by_chars sp H B = Some (message ''system'' sp # kept) \<and>
           suffix kept H \<and>
           (int (length sp) \<le> B \<longrightarrow> int (chars_of (message ''system'' sp # kept)) \<le> B)"
proof -
  have sys: "chars_of (message ''system'' sp # ms) = length sp + chars_of ms" for ms
    by (simp add: chars_of_def message_def)
  have total: "sum_over get_content_len H = Some (chars_of H)"
    using assms by (rule sum_over_messages)
  show ?thesis
  proof (cases "int (length sp) + int (chars_of H) \<le> B")
    case True
    with total show ?thesis
      by (simp add: limit_context_by_chars_def sys)
  next
    case False
    obtain kept where
      k: "trim_loop (int (length sp) + int (chars_of H)) B H = Some kept" "suffix kept H"
         "int (length sp) \<le> B \<longrightarrow> int (length sp) + int (chars_of kept) \<le> B"
      using trim_loop_result [OF assms refl, of "int (length sp)" B] by blast
    with total False show ?thesis
      by (simp add: limit_context_by_chars_def sys)
  qed
qed

text \<open>
  Claim C2. For every history \<open>H\<close> of messages and every budget \<open>B\<close>, the budgeter
  returns a list whose first element is the system message, whatever the budget; and
  when the system prompt alone fits the budget, the characters of the returned list
  (system prompt and kept contents) are at most \<open>B\<close>.
\<close>

theorem trim_within_budget:
  assumes "list_all is_message H"
  shows "\<exists>kept. limit_context_by_chars sp H B = Some (message ''system'' sp # kept) \<and>
           (int (length sp) \<le> B \<longrightarrow> int (chars_of (message ''system'' sp # kept)) \<le> B)"
  using limit_context_shape [OF assms, of sp B] by blast

theorem trim_within_budget_witness:
  "list_all is_message [message ''user'' ''hello'', message ''assistant'' ''hi''] \<and>
   limit_context_by_chars ''sys'' [message ''user'' ''hello'', message ''assistant'' ''hi''] 6
     = Some [message ''system'' ''sys'', message ''assistant'' ''hi''] \<and>
   int (chars_of [message ''system'' ''sys'', message ''assistant'' ''hi'']) \<le> 6"
  using trim_within_budget [of "[message ''user'' ''hello'', message ''assistant'' ''hi'']" "''sys''" 6]
  by (simp add: message_def limit_context_by_chars_def chars_of_def)

text \<open>
  Claim C8. For every history \<open>H\<close> of messages and every budget \<open>B\<close>, the history
  splits into the messages the budgeter dropped, a prefix starting at the oldest
  message, and the messages it kept after the system message, a suffix in the original
  order: nothing is taken from the middle.
\<close>

theorem trim_drops_oldest_prefix:
  assumes "list_all is_message H"
  shows "\<exists>dropped kept. limit_context_by_chars sp H B = Some (message ''system'' sp # kept) \<and>
           H = dropped @ kept"
  using limit_context_shape [OF assms, of sp B] by (auto simp: suffix_def)

theorem trim_drops_oldest_prefix_witness:
  "list_all is_message [message ''user'' ''hello'', message ''assistant'' ''hi'', message ''user'' ''ok''] \<and>
   limit_context_by_chars ''sys''
       [message ''user'' ''hello'', message ''assistant'' ''hi'', message ''user'' ''ok''] 7
     = Some (message ''system'' ''sys'' # [message ''assistant'' ''hi'', message ''user'' ''ok'']) \<and>
   [message ''user'' ''hello'', message ''assistant'' ''hi'', message ''user'' ''ok'']
     = [message ''user'' ''hello''] @ [message ''assistant'' ''hi'', message ''user'' ''ok'']"
  using trim_drops_oldest_prefix
    [of "[message ''user'' ''hello'', message ''assistant'' ''hi'', message ''user'' ''ok'']" "''sys''" 7]
  by (simp add: message_def limit_context_by_chars_def)

section \<open>Properties of the Transcript Store\<close>

lemma save_never_raises: "snd (save_chat_history w d sid msgs) = None"
  by (simp add: save_chat_history_def write_document_def
           split: write_outcome.splits raised.splits)

lemma save_result:
  "save_chat_history w d sid msgs = (fst (save_chat_history w d sid msgs), None)"
  using save_never_raises [of w d sid msgs] by (cases "save_chat_history w d sid msgs") simp

lemma save_written:
  "fst (save_chat_history Written d sid msgs) = d(file_path sid \<mapsto> Json (JArr msgs))"
  by (simp add: save_chat_history_def write_document_def)

lemma save_open_fails: "fst (save_chat_history OpenFails d sid msgs) = d"
  by (simp add: save_chat_history_def write_document_def)

lemma save_dump_fails:
  "fst (save_chat_history (DumpFails e) d sid msgs) = d(file_path sid \<mapsto> Garbled)"
  by (cases e) (simp_all add: save_chat_history_def write_document_def)


lemma load_after_write:
  "list_all has_role_and_content msgs \<Longrightarrow>
   load_chat_history (fst (save_chat_history Written d sid msgs)) sid = Inr msgs"
  by (simp add: save_written load_chat_history_def)


text \<open>What \<^verbatim>\<open>load_chat_history\<close> gives, by what is found at the session's path.\<close>

lemma load_cases:
  "(\<forall>msgs. d (file_path sid) = Some (Json (JArr msgs)) \<and> list_all has_role_and_content msgs
       \<longrightarrow> load_chat_history d sid = Inr msgs) \<and>
   (d (file_path sid) = None \<longrightarrow> load_chat_history d sid = Inr []) \<and>
   (\<forall>doc. d (file_path sid) = Some (Json doc) \<and>
       \<not> (\<exists>msgs. doc = JArr msgs \<and> list_all has_role_and_content msgs)
       \<longrightarrow> load_chat_history d sid = Inr []) \<and>
   (d (file_path sid) = Some Garbled \<longrightarrow> load_chat_history d sid = Inr []) \<and>
   (d (file_path sid) = Some Unreadable \<longrightarrow> load_chat_history d sid = Inr []) \<and>
   (d (file_path sid) = Some StatRaises \<longrightarrow> load_chat_history d sid = Inl IOError)"
  by (auto simp: load_chat_history_def split: json.splits)

text \<open>
  \<^verbatim>\<open>pathlib\<close> drops a leading \<^verbatim>\<open>./\<close>, and an id that starts with a slash leaves the
  directory: different ids can name one record.
\<close>

lemma file_path_aliases:
  "file_path ''./s1'' = file_path ''s1'' \<and>
   file_path ''s1'' = (Relative, [''chat_history'', ''s1.json'']) \<and>
   file_path ''/tmp/s1'' = (Root, [''tmp'', ''s1.json''])"
  by (simp add: file_path_def join_path_def parse_path_def CHAT_DIR_def)




text \<open>
  Claim C9. The claim is that \<^verbatim>\<open>load_chat_history\<close> never lets an I/O error out. The
  function catches everything that is raised inside its \<^verbatim>\<open>try\<close> (lines 126-146), but
  the test \<^verbatim>\<open>file_path.exists()\<close> of line 123 stands before it. For the id made of 32
  zeros and 300 hyphens, which \<^verbatim>\<open>uuid.UUID\<close> accepts, the file name is longer than the
  file system allows; \<^verbatim>\<open>exists()\<close> raises \<^verbatim>\<open>OSError\<close> and the load raises it on.
\<close>

theorem load_raises_when_exists_raises:
  "load_chat_history
     [file_path (replicate 32 CHR ''0'' @ replicate 300 CHR ''-'') \<mapsto> StatRaises]
     (replicate 32 CHR ''0'' @ replicate 300 CHR ''-'')
   = Inl IOError"
  by (simp add: load_chat_history_def)

text \<open>
  Claim C10. Whatever the file system does with the write, \<^verbatim>\<open>save_chat_history\<close>
  raises nothing and \<^verbatim>\<open>create_session\<close> answers 201 with the fresh id; the answer 500
  is never given. After a failed \<^verbatim>\<open>open\<close> the directory is as it was (no record
  for the new id appears), after a failed \<^verbatim>\<open>json.dump\<close> the record is not a JSON
  document; only a write that goes through leaves the empty transcript.
\<close>

theorem create_session_never_fails:
  "snd (save_chat_history w d sid msgs) = None \<and>
   snd (create_session sid w d) = Created sid \<and>
   fst (create_session sid OpenFails d) = d \<and>
   fst (create_session sid (DumpFails e) d) (file_path sid) = Some Garbled \<and>
   fst (create_session sid Written d) (file_path sid) = Some (Json (JArr []))"
proof -
  have c: "create_session sid w d = (fst (save_chat_history w d sid []), Created sid)" for w
    unfolding create_session_def by (subst save_result) simp
  show ?thesis
    by (simp add: c save_never_raises save_written save_open_fails save_dump_fails)
qed

section \<open>Properties of the handler\<close>

subsection \<open>What each operation leaves alone\<close>

lemma send_frame [simp]:
  "files (send_ws_message m s) = files s"
  "messages (send_ws_message m s) = messages s"
  "active_connections (send_ws_message m s) = active_connections s"
  "client_state (send_ws_message m s) = client_state s"
  "link_up (send_ws_message m s) = link_up s"
  "api_calls (send_ws_message m s) = api_calls s"
  "position (send_ws_message m s) = position s"
  by (simp_all add: send_ws_message_def)

lemma send_delivered:
  "delivered (send_ws_message m s) =
     (if client_state s = CONNECTED \<and> link_up s then delivered s @ [m] else delivered s)"
  by (simp add: send_ws_message_def)

lemma send_send_calls:
  "send_calls (send_ws_message m s) =
     (if client_state s = CONNECTED then send_calls s @ [m] else send_calls s)"
  by (simp add: send_ws_message_def)

lemma cleanup_frame [simp]:
  "files (cleanup sid s) = files s"
  "messages (cleanup sid s) = messages s"
  "active_connections (cleanup sid s) = active_connections s - {sid}"
  "client_state (cleanup sid s) = client_state s"
  "link_up (cleanup sid s) = link_up s"
  "api_calls (cleanup sid s) = api_calls s"
  "delivered (cleanup sid s) = delivered s"
  "send_calls (cleanup sid s) = send_calls s"
  "position (cleanup sid s) = Returned"
  by (simp_all add: cleanup_def Let_def)

lemma await_frame [simp]:
  "files (await_receive sid s) = files s"
  "messages (await_receive sid s) = messages s"
  "client_state (await_receive sid s) = client_state s"
  "link_up (await_receive sid s) = link_up s"
  "api_calls (await_receive sid s) = api_calls s"
  "delivered (await_receive sid s) = delivered s"
  by (simp_all add: await_receive_def send_delivered)

lemma await_position:
  "position (await_receive sid s) = (if client_state s = CONNECTED then Receiving else Returned)"
  by (simp add: await_receive_def)

lemma await_registry:
  "active_connections (await_receive sid s) =
     (if client_state s = CONNECTED then active_connections s else active_connections s - {sid})"
  by (simp add: await_receive_def)

lemma relay_content: "fst (relay es buf s) = buf @ concat (fragments es)"
  by (induction es buf s rule: relay.induct) simp_all

lemma relay_frame [simp]:
  "files (snd (relay es buf s)) = files s"
  "messages (snd (relay es buf s)) = messages s"
  "active_connections (snd (relay es buf s)) = active_connections s"
  "client_state (snd (relay es buf s)) = client_state s"
  "api_calls (snd (relay es buf s)) = api_calls s"
  "position (snd (relay es buf s)) = position s"
  by (induction es buf s rule: relay.induct) simp_all

lemma relay_link_down:
  "\<not> link_up s \<Longrightarrow> \<not> link_up (snd (relay es buf s)) \<and> delivered (snd (relay es buf s)) = delivered s"
  by (induction es buf s rule: relay.induct) (simp_all add: send_delivered)

lemma relay_before_drop:
  "link_up s \<Longrightarrow> client_state s = CONNECTED \<Longrightarrow> LinkDrop \<notin> set es \<Longrightarrow>
   link_up (snd (relay es buf s)) \<and>
   delivered (snd (relay es buf s)) = delivered s @ map Stream (fragments es)"
  by (induction es buf s rule: relay.induct) (simp_all add: send_delivered)

lemma relay_send_calls:
  "client_state s = CONNECTED \<Longrightarrow>
   send_calls (snd (relay es buf s)) = send_calls s @ map Stream (fragments es)"
  by (induction es buf s rule: relay.induct) (simp_all add: send_send_calls)

lemma relay_append:
  "relay (xs @ ys) buf s = relay ys (fst (relay xs buf s)) (snd (relay xs buf s))"
  by (induction xs buf s rule: relay.induct) simp_all

lemma relay_drop:
  assumes "link_up s" "client_state s = CONNECTED" "LinkDrop \<notin> set pre"
  shows "\<not> link_up (snd (relay (pre @ LinkDrop # post) buf s)) \<and>
         delivered (snd (relay (pre @ LinkDrop # post) buf s))
           = delivered s @ map Stream (fragments pre)"
proof -
  let ?s1 = "snd (relay pre buf s)"
  have up: "link_up ?s1" "delivered ?s1 = delivered s @ map Stream (fragments pre)"
    using relay_before_drop [OF assms] by simp_all
  have "\<not> link_up (?s1\<lparr>link_up := False\<rparr>)" by simp
  from relay_link_down [OF this, of post "fst (relay pre buf s)"] up(2)
  show ?thesis by (simp add: relay_append)
qed

subsection \<open>The gateway call\<close>

lemma call_gateway_content:
  "fst (call_gateway to_send api w s) =
     (case sum_over index_content_len to_send of
        None \<Rightarrow> [] | Some n \<Rightarrow> concat (fragments (events w)))"
  by (simp add: call_gateway_def split_beta relay_content split: option.splits)

lemma call_gateway_frame [simp]:
  "files (snd (call_gateway to_send api w s)) = files s"
  "messages (snd (call_gateway to_send api w s)) = messages s"
  "active_connections (snd (call_gateway to_send api w s)) = active_connections s"
  "client_state (snd (call_gateway to_send api w s)) = client_state s"
  "position (snd (call_gateway to_send api w s)) = position s"
  by (simp_all add: call_gateway_def split_beta split: option.splits)

lemma call_gateway_link_down:
  "\<not> link_up s \<Longrightarrow>
   \<not> link_up (snd (call_gateway to_send api w s)) \<and>
   delivered (snd (call_gateway to_send api w s)) = delivered s"
proof -
  assume down: "\<not> link_up s"
  have "\<not> link_up (s\<lparr>api_calls := api_calls s @ [api]\<rparr>)" using down by simp
  from relay_link_down [OF this, of "events w" "[]"] down
  show ?thesis
    by (simp add: call_gateway_def split_beta send_delivered split: option.splits)
qed

lemma call_gateway_send_calls:
  assumes "client_state s = CONNECTED" and "sum_over index_content_len to_send = Some n"
  shows "send_calls (snd (call_gateway to_send api w s))
           = send_calls s @ map Stream (fragments (events w)) @ [closing_envelope w]"
proof -
  have "client_state (s\<lparr>api_calls := api_calls s @ [api]\<rparr>) = CONNECTED"
    using assms(1) by simp
  from relay_send_calls [OF this, of "events w" "[]"] assms show ?thesis
    by (simp add: call_gateway_def split_beta send_send_calls closing_envelope_def
             split: option.splits)
qed

lemma call_gateway_calls:
  "api_calls (snd (call_gateway to_send api w s)) =
     (case sum_over index_content_len to_send of
        None \<Rightarrow> api_calls s | Some n \<Rightarrow> api_calls s @ [api])"
  by (simp add: call_gateway_def split_beta split: option.splits)

subsection \<open>Messages\<close>

lemma is_message_has_role_and_content: "is_message m \<Longrightarrow> has_role_and_content m"
  by (cases m) (auto split: option.splits json.splits)

lemma message_is_message [simp]: "is_message (message r c)"
  by (simp add: message_def)

lemma message_has_role_and_content [simp]: "has_role_and_content (message r c)"
  by (simp add: message_def)

lemma index_len_message: "is_message m \<Longrightarrow> \<exists>n. index_content_len m = Some n"
  by (cases m) (auto split: option.splits json.splits)

lemma sum_over_index_messages:
  "list_all is_message ms \<Longrightarrow> \<exists>n. sum_over index_content_len ms = Some n"
proof (induction ms)
  case Nil
  show ?case by simp
next
  case (Cons m ms)
  from Cons.prems obtain n where "index_content_len m = Some n"
    using index_len_message by auto
  moreover from Cons obtain k where "sum_over index_content_len ms = Some k" by auto
  ultimately show ?case by simp
qed

lemma limit_context_messages:
  assumes "list_all is_message H"
  shows "\<exists>to_send n. limit_context_by_chars sp H B = Some to_send \<and>
           sum_over index_content_len to_send = Some n"
proof -
  from limit_context_shape [OF assms, of sp B] obtain kept where
    k: "limit_context_by_chars sp H B = Some (message ''system'' sp # kept)" "suffix kept H"
    by blast
  from k(2) have "set kept \<subseteq> set H" by (rule set_mono_suffix)
  with assms have "list_all is_message (message ''system'' sp # kept)"
    by (auto simp: list_all_iff)
  from sum_over_index_messages [OF this] k(1) show ?thesis by blast
qed

subsection \<open>One turn\<close>

text \<open>The turn with the unreachable handler of a raising save removed.\<close>

lemma chat_turn_eq:
  "chat_turn sid c w s =
     (case limit_context_by_chars (system_prompt_at (now w))
             (messages s @ [message ''user'' c]) MAX_CONTEXT_CHARS of
        None \<Rightarrow> cleanup sid (send_ws_message (Error Critical)
                  (s\<lparr>messages := messages s @ [message ''user'' c]\<rparr>))
      | Some to_send \<Rightarrow>
          (let r = call_gateway to_send
                     (message ''system'' (system_prompt_at (now w)) # messages s @ [message ''user'' c])
                     w (s\<lparr>messages := messages s @ [message ''user'' c]\<rparr>)
           in if fst r \<noteq> [] then
                await_receive sid
                  ((snd r)\<lparr>messages := messages s @ [message ''user'' c, message ''assistant'' (fst r)],
                           files := fst (save_chat_history (disk_write w) (files s) sid
                                     (messages s @ [message ''user'' c, message ''assistant'' (fst r)]))\<rparr>)
              else (snd r)\<lparr>position := Draining []\<rparr>))"
  unfolding chat_turn_def Let_def
  by (subst save_result) (simp add: split_beta split: option.splits)

lemma chat_turn_exact:
  "messages (chat_turn sid c w s) =
     messages s @ message ''user'' c #
       (if reaches_gateway (system_prompt_at (now w)) (messages s @ [message ''user'' c]) \<and>
           concat (fragments (events w)) \<noteq> []
        then [message ''assistant'' (concat (fragments (events w)))] else [])"
  "files (chat_turn sid c w s) =
     (if reaches_gateway (system_prompt_at (now w)) (messages s @ [message ''user'' c]) \<and>
         concat (fragments (events w)) \<noteq> []
      then fst (save_chat_history (disk_write w) (files s) sid
                 (messages s @ [message ''user'' c,
                                message ''assistant'' (concat (fragments (events w)))]))
      else files s)"
  by (simp_all add: chat_turn_eq reaches_gateway_def Let_def call_gateway_content
               del: concat_eq_Nil_conv Nil_eq_concat_conv split: option.splits)


lemma messages_reach_gateway:
  "list_all is_message history \<Longrightarrow> reaches_gateway sp history"
  using limit_context_messages [of history sp MAX_CONTEXT_CHARS]
  by (auto simp: reaches_gateway_def)

text \<open>A turn on a transcript of messages: the budgeter and the log line do not raise.\<close>

lemma chat_turn_messages:
  assumes "list_all is_message (messages s)"
  shows "\<exists>to_send n.
    sum_over index_content_len to_send = Some n \<and>
    chat_turn sid c w s =
      (let r = call_gateway to_send
                 (message ''system'' (system_prompt_at (now w)) # messages s @ [message ''user'' c])
                 w (s\<lparr>messages := messages s @ [message ''user'' c]\<rparr>)
       in if concat (fragments (events w)) \<noteq> [] then
            await_receive sid
              ((snd r)\<lparr>messages := messages s @
                          [message ''user'' c, message ''assistant'' (concat (fragments (events w)))],
                       files := fst (save_chat_history (disk_write w) (files s) sid
                                 (messages s @
                                   [message ''user'' c, message ''assistant'' (concat (fragments (events w)))]))\<rparr>)
          else (snd r)\<lparr>position := Draining []\<rparr>)"
proof -
  have "list_all is_message (messages s @ [message ''user'' c])" using assms by simp
  from limit_context_messages [OF this, of "system_prompt_at (now w)" MAX_CONTEXT_CHARS]
  obtain to_send n where
    t: "limit_context_by_chars (system_prompt_at (now w)) (messages s @ [message ''user'' c])
          MAX_CONTEXT_CHARS = Some to_send"
       "sum_over index_content_len to_send = Some n" by blast
  show ?thesis
    by (intro exI [of _ to_send] exI [of _ n])
       (simp add: chat_turn_eq t Let_def call_gateway_content)
qed

subsection \<open>The transcript in memory and on disk\<close>






lemma run_append: "run sid (xs @ ys) s = run sid ys (run sid xs s)"
  by (induction xs arbitrary: s) simp_all


subsection \<open>After the link has gone down\<close>

lemma send_link_down: "\<not> link_up s \<Longrightarrow> delivered (send_ws_message m s) = delivered s"
  by (simp add: send_delivered)

lemma chat_turn_link_down:
  assumes "\<not> link_up s"
  shows "\<not> link_up (chat_turn sid c w s) \<and> delivered (chat_turn sid c w s) = delivered s"
proof -
  have down: "\<not> link_up (s\<lparr>messages := messages s @ [message ''user'' c]\<rparr>)"
    using assms by simp
  show ?thesis
    using assms call_gateway_link_down [OF down]
    by (simp add: chat_turn_eq Let_def send_link_down split: option.splits)
qed

lemma step_link_down:
  assumes "\<not> link_up s"
  shows "\<not> link_up (step sid ev s) \<and> delivered (step sid ev s) = delivered s"
proof (cases "position s")
  case Receiving
  with assms chat_turn_link_down [OF assms] show ?thesis
    by (simp add: step_def on_receive_def send_link_down
             split: event.splits frame.splits option.splits)
next
  case (Draining js)
  with assms show ?thesis
    by (simp add: step_def on_drain_def Let_def send_link_down
             split: event.splits frame.splits option.splits)
next
  case Returned
  with assms show ?thesis by (simp add: step_def)
qed

lemma run_link_down:
  "\<not> link_up s \<Longrightarrow> delivered (run sid evs s) = delivered s"
proof (induction evs arbitrary: s)
  case Nil
  show ?case by simp
next
  case (Cons ev evs)
  from step_link_down [OF Cons.prems, of sid ev] Cons.IH [of "step sid ev s"]
  show ?case by simp
qed

subsection \<open>The registry after the handler has returned\<close>

lemma chat_turn_returned:
  "position (chat_turn sid c w s) = Returned \<Longrightarrow> sid \<notin> active_connections (chat_turn sid c w s)"
  by (simp add: chat_turn_eq Let_def await_position await_registry split: option.splits if_splits)

lemma step_returned:
  assumes "position s = Returned \<longrightarrow> sid \<notin> active_connections s"
  shows "position (step sid ev s) = Returned \<longrightarrow> sid \<notin> active_connections (step sid ev s)"
proof (cases "position s")
  case Receiving
  with chat_turn_returned [of sid _ _ s] show ?thesis
    by (auto simp: step_def on_receive_def await_position await_registry
             split: event.splits frame.splits option.splits if_splits)
next
  case (Draining js)
  then show ?thesis
    by (auto simp: step_def on_drain_def Let_def await_position await_registry
             split: event.splits frame.splits option.splits if_splits)
next
  case Returned
  with assms show ?thesis by (simp add: step_def)
qed

lemma run_returned:
  "position s = Returned \<longrightarrow> sid \<notin> active_connections s \<Longrightarrow>
   position (run sid evs s) = Returned \<longrightarrow> sid \<notin> active_connections (run sid evs s)"
proof (induction evs arbitrary: s)
  case Nil
  then show ?case by simp
next
  case (Cons ev evs)
  from Cons.IH [OF step_returned [OF Cons.prems]] show ?case by simp
qed

lemma disconnect_returns: "position (step sid Disconnect s) = Returned"
  by (cases "position s")
     (simp_all add: step_def on_receive_def on_drain_def Let_def await_position
               split: option.splits)

section \<open>The claims about the handler\<close>

lemmas handler_defs =
  websocket_endpoint_def await_receive_def step_def on_receive_def on_drain_def chat_turn_def
  call_gateway_def send_ws_message_def cleanup_def error_detail_def system_prompt_at_def
  limit_context_by_chars_def MAX_CONTEXT_CHARS_def message_def load_chat_history_def
  save_chat_history_def write_document_def chat_message_def before_connect_def
  connected_def persisted_def closing_envelope_def globals_from_def Let_def

text \<open>A chat message with content, received while the handler waits, starts a turn.\<close>

lemma step_chat_message:
  "position s = Receiving \<Longrightarrow> c \<noteq> [] \<Longrightarrow>
   step sid (Frame (chat_message c) w) s = chat_turn sid c w s"
  by (simp add: step_def on_receive_def chat_message_def)

text \<open>
  Claim C1. The claim is that the list given to the gateway is the budgeter's output.
  The handler computes that output (\<^verbatim>\<open>api_messages_to_send\<close>, line 380) and reports
  its size in the log line 394, but gives \<^verbatim>\<open>api_messages\<close>, the system message and
  the whole transcript, to \<^verbatim>\<open>create\<close> (line 397). On a session whose stored transcript
  is one message of 300000 characters, the budgeter drops that message, and the gateway
  receives it all the same.
\<close>

theorem gateway_receives_untrimmed_history:
  "limit_context_by_chars (system_prompt_at ''t'')
     [message ''user'' (replicate 300000 CHR ''a''), message ''user'' ''hi''] MAX_CONTEXT_CHARS
     = Some [message ''system'' (system_prompt_at ''t''), message ''user'' ''hi''] \<and>
   api_calls
     (run ''s1''
        [Frame (chat_message ''hi'')
           \<lparr>now = ''t'', events = [Chunk (Some ''ok'')], ending = None, disk_write = Written\<rparr>]
        (connected ''s1'' [message ''user'' (replicate 300000 CHR ''a'')]))
     = [[message ''system'' (system_prompt_at ''t''),
         message ''user'' (replicate 300000 CHR ''a''),
         message ''user'' ''hi'']]"
  by (simp add: handler_defs)

text \<open>
  Claim C3. The claim is that after a stream that raised, the handler is back waiting
  for the next request. Here the stream yields one fragment, the empty string, and then
  raises \<^verbatim>\<open>APIConnectionError\<close>. The client gets the fragment and one error envelope,
  and no assistant message is appended, as claimed; but the handler then sits in
  \<^verbatim>\<open>websocket.iter_json()\<close> (line 435): the next chat message is collected there, it
  reaches neither the transcript nor the gateway, and nothing is sent for it.
\<close>

theorem session_stuck_after_failed_stream:
  "delivered
     (run ''s1''
        [Frame (chat_message ''hi'')
           \<lparr>now = ''t'', events = [Chunk (Some '''')], ending = Some APIConnectionError,
            disk_write = Written\<rparr>]
        (connected ''s1'' []))
     = [Stream '''', Error NoConnect] \<and>
   position
     (run ''s1''
        [Frame (chat_message ''hi'')
           \<lparr>now = ''t'', events = [Chunk (Some '''')], ending = Some APIConnectionError,
            disk_write = Written\<rparr>]
        (connected ''s1'' []))
     = Draining [] \<and>
   api_calls
     (run ''s1''
        [Frame (chat_message ''hi'')
           \<lparr>now = ''t'', events = [Chunk (Some '''')], ending = Some APIConnectionError,
            disk_write = Written\<rparr>,
         Frame (chat_message ''again'')
           \<lparr>now = ''u'', events = [Chunk (Some ''Hello'')], ending = None, disk_write = Written\<rparr>]
        (connected ''s1'' []))
     = [[message ''system'' (system_prompt_at ''t''), message ''user'' ''hi'']] \<and>
   delivered
     (run ''s1''
        [Frame (chat_message ''hi'')
           \<lparr>now = ''t'', events = [Chunk (Some '''')], ending = Some APIConnectionError,
            disk_write = Written\<rparr>,
         Frame (chat_message ''again'')
           \<lparr>now = ''u'', events = [Chunk (Some ''Hello'')], ending = None, disk_write = Written\<rparr>]
        (connected ''s1'' []))
     = [Stream '''', Error NoConnect] \<and>
   messages
     (run ''s1''
        [Frame (chat_message ''hi'')
           \<lparr>now = ''t'', events = [Chunk (Some '''')], ending = Some APIConnectionError,
            disk_write = Written\<rparr>,
         Frame (chat_message ''again'')
           \<lparr>now = ''u'', events = [Chunk (Some ''Hello'')], ending = None, disk_write = Written\<rparr>]
        (connected ''s1'' []))
     = [message ''user'' ''hi'']"
  by (simp add: handler_defs)

text \<open>
  Claim C4. The claim is that a stream that ends normally without a fragment is a no-op
  after which the handler is ready for the next request. The handler sends the
  termination envelope and appends no assistant message; then the condition of line 435
  reads from the socket until the client disconnects. The next chat message is
  collected by that read and never answered, and at the disconnect the handler
  returns.
\<close>

theorem session_stuck_after_empty_response:
  "delivered
     (run ''s1''
        [Frame (chat_message ''hi'')
           \<lparr>now = ''t'', events = [], ending = None, disk_write = Written\<rparr>]
        (connected ''s1'' []))
     = [Stream ''[DONE]''] \<and>
   position
     (run ''s1''
        [Frame (chat_message ''hi'')
           \<lparr>now = ''t'', events = [], ending = None, disk_write = Written\<rparr>,
         Frame (chat_message ''again'')
           \<lparr>now = ''u'', events = [Chunk (Some ''Hello'')], ending = None, disk_write = Written\<rparr>]
        (connected ''s1'' []))
     = Draining [JObj [(''type'', JStr ''chat_message''), (''content'', JStr ''again'')]] \<and>
   api_calls
     (run ''s1''
        [Frame (chat_message ''hi'')
           \<lparr>now = ''t'', events = [], ending = None, disk_write = Written\<rparr>,
         Frame (chat_message ''again'')
           \<lparr>now = ''u'', events = [Chunk (Some ''Hello'')], ending = None, disk_write = Written\<rparr>,
         Disconnect]
        (connected ''s1'' []))
     = [[message ''system'' (system_prompt_at ''t''), message ''user'' ''hi'']] \<and>
   delivered
     (run ''s1''
        [Frame (chat_message ''hi'')
           \<lparr>now = ''t'', events = [], ending = None, disk_write = Written\<rparr>,
         Frame (chat_message ''again'')
           \<lparr>now = ''u'', events = [Chunk (Some ''Hello'')], ending = None, disk_write = Written\<rparr>,
         Disconnect]
        (connected ''s1'' []))
     = [Stream ''[DONE]''] \<and>
   position
     (run ''s1''
        [Frame (chat_message ''hi'')
           \<lparr>now = ''t'', events = [], ending = None, disk_write = Written\<rparr>,
         Frame (chat_message ''again'')
           \<lparr>now = ''u'', events = [Chunk (Some ''Hello'')], ending = None, disk_write = Written\<rparr>,
         Disconnect]
        (connected ''s1'' []))
     = Returned"
  by (simp add: handler_defs)

text \<open>
  Claim C6, as amended. The client's connection goes down while a response is streamed:
  the stream's events are \<open>pre\<close>, the drop, \<open>post\<close>. The handler does not notice: it
  reads the stream to its end and calls \<^verbatim>\<open>send_json\<close> for every fragment and for the
  closing envelope. Of these the client has received the fragments of \<open>pre\<close>, and it
  receives nothing more, whatever happens later. If the text accumulated over the whole
  stream, before and after the drop, is not empty, the handler appends it as an
  assistant message and gives the transcript to \<^verbatim>\<open>save_chat_history\<close>: it is persisted
  when the write goes through, and the record is as before when \<^verbatim>\<open>open\<close> fails. If
  the accumulated text is empty, whatever the number of fragments, no assistant message
  is appended and nothing is written. When the disconnect reaches the handler, the
  session id leaves the registry.
\<close>

theorem drop_mid_stream:
  assumes "link_up s" and "client_state s = CONNECTED" and "list_all is_message (messages s)"
      and "events w = pre @ LinkDrop # post" and "LinkDrop \<notin> set pre"
  shows "send_calls (chat_turn sid c w s)
           = send_calls s @ map Stream (fragments (events w)) @ [closing_envelope w] \<and>
         delivered (chat_turn sid c w s) = delivered s @ map Stream (fragments pre) \<and>
         (\<forall>evs. delivered (run sid evs (chat_turn sid c w s)) = delivered (chat_turn sid c w s)) \<and>
         messages (chat_turn sid c w s)
           = messages s @ message ''user'' c #
               (if concat (fragments (events w)) \<noteq> []
                then [message ''assistant'' (concat (fragments (events w)))] else []) \<and>
         files (chat_turn sid c w s)
           = (if concat (fragments (events w)) \<noteq> []
              then fst (save_chat_history (disk_write w) (files s) sid
                         (messages s @ [message ''user'' c,
                                        message ''assistant'' (concat (fragments (events w)))]))
              else files s) \<and>
         (concat (fragments (events w)) \<noteq> [] \<and> disk_write w = Written \<longrightarrow>
            persisted sid (chat_turn sid c w s)
              = Inr (messages s @ [message ''user'' c,
                                   message ''assistant'' (concat (fragments (events w)))])) \<and>
         (concat (fragments (events w)) \<noteq> [] \<and> disk_write w = OpenFails \<longrightarrow>
            persisted sid (chat_turn sid c w s) = persisted sid s) \<and>
         (\<forall>evs. sid \<notin> active_connections (run sid (evs @ [Disconnect]) (chat_turn sid c w s)))"
proof -
  let ?s1 = "s\<lparr>messages := messages s @ [message ''user'' c]\<rparr>"
  let ?a = "concat (fragments (events w))"
  let ?api = "message ''system'' (system_prompt_at (now w)) # messages s @ [message ''user'' c]"
  let ?saved = "messages s @ [message ''user'' c, message ''assistant'' ?a]"
  from chat_turn_messages [OF assms(3), of sid c w] obtain to_send n where
    logged: "sum_over index_content_len to_send = Some n" and
    turn: "chat_turn sid c w s =
      (let r = call_gateway to_send ?api w ?s1
       in if ?a \<noteq> [] then
            await_receive sid
              ((snd r)\<lparr>messages := ?saved,
                       files := fst (save_chat_history (disk_write w) (files s) sid ?saved)\<rparr>)
          else (snd r)\<lparr>position := Draining []\<rparr>)" by blast
  let ?r = "call_gateway to_send ?api w ?s1"
  have after: "delivered (chat_turn sid c w s) = delivered (snd ?r)"
              "link_up (chat_turn sid c w s) = link_up (snd ?r)"
    by (simp_all add: turn Let_def)
  have conn: "client_state ?s1 = CONNECTED" using assms(2) by simp
  have calls: "send_calls (chat_turn sid c w s)
                 = send_calls s @ map Stream (fragments (events w)) @ [closing_envelope w]"
    using call_gateway_send_calls [OF conn logged, of ?api w] assms(2)
    by (simp add: turn Let_def await_receive_def)
  let ?s2 = "?s1\<lparr>api_calls := api_calls ?s1 @ [?api]\<rparr>"
  have "link_up ?s2" "client_state ?s2 = CONNECTED" using assms(1,2) by simp_all
  from relay_drop [OF this assms(5), of post "[]"] assms(4)
  have rel: "\<not> link_up (snd (relay (events w) [] ?s2))"
            "delivered (snd (relay (events w) [] ?s2)) = delivered s @ map Stream (fragments pre)"
    by simp_all
  have gw: "\<not> link_up (snd ?r) \<and> delivered (snd ?r) = delivered s @ map Stream (fragments pre)"
    using rel logged by (simp add: call_gateway_def split_beta send_delivered split: option.splits)
  have one: "delivered (chat_turn sid c w s) = delivered s @ map Stream (fragments pre)"
    using after gw by simp
  have down: "\<not> link_up (chat_turn sid c w s)" using after gw by simp
  have two: "\<forall>evs. delivered (run sid evs (chat_turn sid c w s)) = delivered (chat_turn sid c w s)"
    using run_link_down [OF down] by simp
  have reach: "reaches_gateway (system_prompt_at (now w)) (messages s @ [message ''user'' c])"
    using assms(3) by (intro messages_reach_gateway) simp
  have mem: "messages (chat_turn sid c w s)
               = messages s @ message ''user'' c #
                   (if ?a \<noteq> [] then [message ''assistant'' ?a] else [])"
    using chat_turn_exact(1) [of sid c w s] reach by simp
  have disk: "files (chat_turn sid c w s)
                = (if ?a \<noteq> []
                   then fst (save_chat_history (disk_write w) (files s) sid ?saved)
                   else files s)"
    using chat_turn_exact(2) [of sid c w s] reach by simp
  have three: "persisted sid (chat_turn sid c w s) = Inr ?saved"
    if "?a \<noteq> []" "disk_write w = Written"
  proof -
    have "list_all has_role_and_content ?saved"
      using assms(3) by (auto simp: list_all_iff intro: is_message_has_role_and_content)
    from load_after_write [OF this] disk that show ?thesis
      by (simp add: persisted_def)
  qed
  have three': "persisted sid (chat_turn sid c w s) = persisted sid s"
    if "?a \<noteq> []" "disk_write w = OpenFails"
    using disk that by (simp add: persisted_def save_open_fails)
  have four: "sid \<notin> active_connections (run sid (evs @ [Disconnect]) (chat_turn sid c w s))" for evs
  proof -
    let ?t = "run sid evs (chat_turn sid c w s)"
    have "position ?t = Returned \<longrightarrow> sid \<notin> active_connections ?t"
      using chat_turn_returned [of sid c w s] by (intro run_returned) simp
    from step_returned [OF this, of Disconnect] disconnect_returns [of sid ?t]
    show ?thesis by (simp add: run_append)
  qed
  from calls one two mem disk three three' four show ?thesis by blast
qed

theorem drop_mid_stream_witness:
  "link_up (connected ''s1'' []) \<and>
   client_state (connected ''s1'' []) = CONNECTED \<and>
   list_all is_message (messages (connected ''s1'' [])) \<and>
   send_calls
     (chat_turn ''s1'' ''hi''
        \<lparr>now = ''t'', events = [Chunk (Some ''Par''), LinkDrop, Chunk (Some ''is'')],
         ending = Some RateLimitError, disk_write = Written\<rparr>
        (connected ''s1'' []))
     = [Stream ''Par'', Stream ''is'', Error Overloaded] \<and>
   delivered
     (chat_turn ''s1'' ''hi''
        \<lparr>now = ''t'', events = [Chunk (Some ''Par''), LinkDrop, Chunk (Some ''is'')],
         ending = Some RateLimitError, disk_write = Written\<rparr>
        (connected ''s1'' []))
     = [Stream ''Par''] \<and>
   delivered
     (run ''s1'' [Frame NotJson \<lparr>now = ''u'', events = [], ending = None, disk_write = Written\<rparr>]
        (chat_turn ''s1'' ''hi''
           \<lparr>now = ''t'', events = [Chunk (Some ''Par''), LinkDrop, Chunk (Some ''is'')],
            ending = Some RateLimitError, disk_write = Written\<rparr>
           (connected ''s1'' [])))
     = [Stream ''Par''] \<and>
   persisted ''s1''
     (chat_turn ''s1'' ''hi''
        \<lparr>now = ''t'', events = [Chunk (Some ''Par''), LinkDrop, Chunk (Some ''is'')],
         ending = Some RateLimitError, disk_write = Written\<rparr>
        (connected ''s1'' []))
     = Inr [message ''user'' ''hi'', message ''assistant'' ''Paris''] \<and>
   ''s1'' \<notin> active_connections
     (run ''s1'' ([] @ [Disconnect])
        (chat_turn ''s1'' ''hi''
           \<lparr>now = ''t'', events = [Chunk (Some ''Par''), LinkDrop, Chunk (Some ''is'')],
            ending = Some RateLimitError, disk_write = Written\<rparr>
           (connected ''s1'' [])))"
  using drop_mid_stream
    [of "connected ''s1'' []"
        "\<lparr>now = ''t'', events = [Chunk (Some ''Par''), LinkDrop, Chunk (Some ''is'')],
          ending = Some RateLimitError, disk_write = Written\<rparr>"
        "[Chunk (Some ''Par'')]" "[Chunk (Some ''is'')]" "''s1''" "''hi''"]
  by (simp add: handler_defs)

text \<open>
  The claim as it was stated has the partial content persisted as soon as one fragment
  was accumulated. First, with one fragment, the empty string, accumulated before the
  drop, nothing is written: the guard of line 432 tests the accumulated text. Second,
  with the fragment \<^verbatim>\<open>Par\<close> accumulated and the write failing at \<^verbatim>\<open>open\<close>, the failure
  is logged and the record is as before. Third, with \<^verbatim>\<open>Par\<close> before the drop and
  \<^verbatim>\<open>is\<close> after it, what is persisted is not the partial \<^verbatim>\<open>Par\<close> but \<^verbatim>\<open>Paris\<close>: the
  handler has read on, calling \<^verbatim>\<open>send_json\<close> for \<^verbatim>\<open>is\<close> and for the closing
  envelope.
\<close>

theorem drop_mid_stream_not_as_claimed:
  "fragments [Chunk (Some ''''), LinkDrop] = [''''] \<and>
   persisted ''s1''
     (run ''s1''
        [Frame (chat_message ''hi'')
           \<lparr>now = ''t'', events = [Chunk (Some ''''), LinkDrop], ending = None,
            disk_write = Written\<rparr>,
         Disconnect]
        (connected ''s1'' []))
     = Inr [] \<and>
   persisted ''s1''
     (run ''s1''
        [Frame (chat_message ''hi'')
           \<lparr>now = ''t'', events = [Chunk (Some ''Par''), LinkDrop], ending = None,
            disk_write = OpenFails\<rparr>,
         Disconnect]
        (connected ''s1'' []))
     = Inr [] \<and>
   persisted ''s1''
     (run ''s1''
        [Frame (chat_message ''hi'')
           \<lparr>now = ''t'', events = [Chunk (Some ''Par''), LinkDrop, Chunk (Some ''is'')],
            ending = None, disk_write = Written\<rparr>,
         Disconnect]
        (connected ''s1'' []))
     = Inr [message ''user'' ''hi'', message ''assistant'' ''Paris''] \<and>
   send_calls
     (run ''s1''
        [Frame (chat_message ''hi'')
           \<lparr>now = ''t'', events = [Chunk (Some ''Par''), LinkDrop, Chunk (Some ''is'')],
            ending = None, disk_write = Written\<rparr>,
         Disconnect]
        (connected ''s1'' []))
     = [Stream ''Par'', Stream ''is'', Stream ''[DONE]''] \<and>
   delivered
     (run ''s1''
        [Frame (chat_message ''hi'')
           \<lparr>now = ''t'', events = [Chunk (Some ''Par''), LinkDrop, Chunk (Some ''is'')],
            ending = None, disk_write = Written\<rparr>,
         Disconnect]
        (connected ''s1'' []))
     = [Stream ''Par'']"
  by (simp add: handler_defs)

subsection \<open>Connections that follow one another\<close>







end
